theory Spec2Isabelle
  imports Main
begin

section \<open>Values shared by the whole module\<close>

text \<open>
  The exceptions the module can raise: \<open>IndexError\<close> from subscripting a string, a list or
  the array of squares out of range, \<open>ValueError\<close> from \<^verbatim>\<open>index\<close> and \<^verbatim>\<open>list.remove\<close> on an
  absent element, \<open>AttributeError\<close> from \<^verbatim>\<open>None.square = ...\<close>.
\<close>

datatype error = IndexError | ValueError | AttributeError

fun and_then :: "error + 'a \<Rightarrow> ('a \<Rightarrow> error + 'b) \<Rightarrow> error + 'b" where
  "and_then (Inl e) f = Inl e"
| "and_then (Inr x) f = f x"

text \<open>Running a list of computations in order, stopping at the first exception.\<close>

fun collect :: "(error + 'a) list \<Rightarrow> error + 'a list" where
  "collect [] = Inr []"
| "collect (m # ms) = and_then m (\<lambda>x. and_then (collect ms) (\<lambda>xs. Inr (x # xs)))"

text \<open>A \<^verbatim>\<open>for\<close> loop over a sequence, threading the state, stopping at the first exception.\<close>

fun for_each :: "'i list \<Rightarrow> ('i \<Rightarrow> 's \<Rightarrow> error + 's) \<Rightarrow> 's \<Rightarrow> error + 's" where
  "for_each [] body s = Inr s"
| "for_each (x # xs) body s = and_then (body x s) (for_each xs body)"

text \<open>
  Python subscripting of a sequence of length \<open>n\<close> by an integer: a negative index counts
  from the end, anything outside \<open>[-n, n)\<close> raises \<open>IndexError\<close>.
\<close>

definition norm_index :: "int \<Rightarrow> nat \<Rightarrow> error + nat" where
  "norm_index i n =
     (let j = (if i < 0 then int n + i else i)
      in if 0 \<le> j \<and> j < int n then Inr (nat j) else Inl IndexError)"

definition getitem :: "'a list \<Rightarrow> int \<Rightarrow> error + 'a" where
  "getitem xs i = and_then (norm_index i (length xs)) (\<lambda>j. Inr (xs ! j))"

text \<open>\<^verbatim>\<open>xs.index(x)\<close>: the position of the first element equal to \<open>x\<close>, or \<open>ValueError\<close>.\<close>

fun index_of :: "'a list \<Rightarrow> 'a \<Rightarrow> error + int" where
  "index_of [] x = Inl ValueError"
| "index_of (y # ys) x =
     (if y = x then Inr 0 else and_then (index_of ys x) (\<lambda>i. Inr (i + 1)))"

text \<open>\<^verbatim>\<open>str(n)\<close> for an integer: its decimal digits, with a minus sign when negative.\<close>

function digits :: "nat \<Rightarrow> string" where
  "digits n =
     (if n < 10 then [''0123456789'' ! n] else digits (n div 10) @ [''0123456789'' ! (n mod 10)])"
  by pat_completeness auto
termination
  by (relation "measure id") auto

declare digits.simps [simp del]

definition str :: "int \<Rightarrow> string" where
  "str i = (if i < 0 then CHR ''-'' # digits (nat (- i)) else digits (nat i))"

section \<open>Coordinate conversion\<close>

text \<open>
  The module globals \<^verbatim>\<open>FILE\<close> and \<^verbatim>\<open>RANK\<close> hold a \<^verbatim>\<open>str\<close> at import time and a list of
  \<^verbatim>\<open>str\<close> once a board of another size has been built. Subscripting a \<^verbatim>\<open>str\<close> gives the
  one-character string at that position; \<^verbatim>\<open>index\<close> is only ever called with a one-character
  string (\<^verbatim>\<open>coordinate[0]\<close>, \<^verbatim>\<open>coordinate[1]\<close>), where it is the position of that character in
  a \<^verbatim>\<open>str\<close> and of that element in a list.
\<close>

datatype labels = Str string | StrList "string list"

definition FILE_default :: labels where
  "FILE_default = Str ''abcdefgh''"

definition RANK_default :: labels where
  "RANK_default = Str ''87654321''"

fun labels_getitem :: "labels \<Rightarrow> int \<Rightarrow> error + string" where
  "labels_getitem (Str s) i = and_then (getitem s i) (\<lambda>c. Inr [c])"
| "labels_getitem (StrList xs) i = getitem xs i"

fun labels_index :: "labels \<Rightarrow> char \<Rightarrow> error + int" where
  "labels_index (Str s) c = index_of s c"
| "labels_index (StrList xs) c = index_of xs [c]"

definition alpha :: string where
  "alpha = ''abcdefghijklmnopqrstuvwxyz''"

definition defineFILEandRANK :: "int \<Rightarrow> int \<Rightarrow> error + (string list \<times> string list)" where
  "defineFILEandRANK fileCount rankCount =
     and_then (collect (map (\<lambda>f. and_then (getitem alpha f) (\<lambda>c. Inr [c])) [0..fileCount - 1]))
       (\<lambda>fileList. Inr (fileList, map str (rev [0..rankCount - 1])))"

definition algebraicToComputer :: "labels \<Rightarrow> labels \<Rightarrow> string \<Rightarrow> error + (int \<times> int)" where
  "algebraicToComputer FILE_tab RANK_tab coordinate =
     and_then (getitem coordinate 0) (\<lambda>c0.
     and_then (labels_index FILE_tab c0) (\<lambda>f.
     and_then (getitem coordinate 1) (\<lambda>c1.
     and_then (labels_index RANK_tab c1) (\<lambda>r. Inr (f, r)))))"

definition computerToAlgebraic :: "labels \<Rightarrow> labels \<Rightarrow> int \<Rightarrow> int \<Rightarrow> error + string" where
  "computerToAlgebraic FILE_tab RANK_tab f r =
     and_then (labels_getitem FILE_tab f) (\<lambda>fl.
     and_then (labels_getitem RANK_tab r) (\<lambda>rl. Inr (fl @ rl)))"

definition getSquareColor :: "int \<Rightarrow> int \<Rightarrow> string" where
  "getSquareColor f r = (if r mod 2 = f mod 2 then ''light'' else ''dark'')"

section \<open>Pieces, squares and the board\<close>

text \<open>
  Modelled from the spec: the classes of \<^verbatim>\<open>chess_pieces\<close> (\<^verbatim>\<open>Piece\<close> and its subclasses
  \<^verbatim>\<open>King\<close>, \<^verbatim>\<open>Queen\<close>, \<^verbatim>\<open>Rook\<close>, \<^verbatim>\<open>Bishop\<close>, \<^verbatim>\<open>Knight\<close>, \<^verbatim>\<open>Pawn\<close>) are imported by the module
  and defined elsewhere. The spec gives the interface the module relies on: a type name
  (\<^verbatim>\<open>get_name()\<close>), a color out of white and black (\<^verbatim>\<open>get_color()\<close>), and a slot \<^verbatim>\<open>square\<close>
  that the square operations write. A piece is an object: two pieces are the same piece
  when they are the same object, so a piece is referred to by its address in a store, and
  a constructor call allocates the next free address.
\<close>

datatype color = White | Black

type_synonym addr = nat

text \<open>
  A reference to a square is the triple \<^verbatim>\<open>(board, file, rank)\<close>, which is what
  \<^verbatim>\<open>Square.__eq__\<close> and \<^verbatim>\<open>Square.__hash__\<close> compare; a board is named by the number it
  received when it was constructed.
\<close>

type_synonym square_ref = "nat \<times> int \<times> int"

record Piece =
  get_name :: string
  get_color :: color
  square :: "square_ref option"

text \<open>The attributes of a \<^verbatim>\<open>Square\<close>, each under its name prefixed with \<open>sq_\<close>.\<close>

record Square =
  sq_file :: int
  sq_rank :: int
  sq_board :: nat
  sq_color :: string
  sq_piece :: "addr option"
  sq_name :: string
  sq_selected :: bool

record Board =
  ident :: nat
  files :: nat
  ranks :: nat
  pieces :: "addr list"
  queens :: "color \<Rightarrow> addr list"
  rooks :: "color \<Rightarrow> addr list"
  knights :: "color \<Rightarrow> addr list"
  bishops :: "color \<Rightarrow> addr list"
  squares :: "Square list"
  white_king :: "addr option"
  black_king :: "addr option"

text \<open>
  The state outside any one board: the two module globals, the store of piece objects
  with its allocation counter, the number of boards constructed so far, and the lines
  printed.
\<close>

record world =
  FILE :: labels
  RANK :: labels
  heap :: "addr \<Rightarrow> Piece"
  next_piece :: addr
  next_board :: nat
  stdout :: "string list"

text \<open>
  Modelled from the spec: the constructors of \<^verbatim>\<open>chess_pieces\<close>, which are not part of the
  module. Each returns a new piece of its kind and of the given color, on no square.
\<close>

definition Piece_init :: "string \<Rightarrow> color \<Rightarrow> world \<Rightarrow> addr \<times> world" where
  "Piece_init n c w =
     (next_piece w,
      w\<lparr>heap := (heap w)(next_piece w := \<lparr>get_name = n, get_color = c, square = None\<rparr>),
        next_piece := Suc (next_piece w)\<rparr>)"

definition King :: "color \<Rightarrow> world \<Rightarrow> addr \<times> world" where
  "King = Piece_init ''King''"

definition Queen :: "color \<Rightarrow> world \<Rightarrow> addr \<times> world" where
  "Queen = Piece_init ''Queen''"

definition Rook :: "color \<Rightarrow> world \<Rightarrow> addr \<times> world" where
  "Rook = Piece_init ''Rook''"

definition Bishop :: "color \<Rightarrow> world \<Rightarrow> addr \<times> world" where
  "Bishop = Piece_init ''Bishop''"

definition Knight :: "color \<Rightarrow> world \<Rightarrow> addr \<times> world" where
  "Knight = Piece_init ''Knight''"

definition Pawn :: "color \<Rightarrow> world \<Rightarrow> addr \<times> world" where
  "Pawn = Piece_init ''Pawn''"

subsection \<open>Square\<close>

definition Square_init :: "labels \<Rightarrow> labels \<Rightarrow> int \<Rightarrow> int \<Rightarrow> nat \<Rightarrow> error + Square" where
  "Square_init FILE_tab RANK_tab f r b =
     and_then (computerToAlgebraic FILE_tab RANK_tab f r) (\<lambda>n.
       Inr \<lparr>sq_file = f, sq_rank = r, sq_board = b, sq_color = getSquareColor f r,
            sq_piece = None, sq_name = n, sq_selected = False\<rparr>)"

definition ref :: "Square \<Rightarrow> square_ref" where
  "ref self = (sq_board self, sq_file self, sq_rank self)"

definition has_piece :: "Square \<Rightarrow> bool" where
  "has_piece self = (sq_piece self \<noteq> None)"

text \<open>
  \<^verbatim>\<open>set_piece\<close> writes the square first and the piece second; with \<^verbatim>\<open>None\<close> for the piece
  the second assignment raises.
\<close>

definition set_piece ::
  "Square \<Rightarrow> addr option \<Rightarrow> (addr \<Rightarrow> Piece) \<Rightarrow> error + (Square \<times> (addr \<Rightarrow> Piece))" where
  "set_piece self p h =
     (case p of
        None \<Rightarrow> Inl AttributeError
      | Some a \<Rightarrow> Inr (self\<lparr>sq_piece := Some a\<rparr>, h(a := (h a)\<lparr>square := Some (ref self)\<rparr>)))"

definition remove_piece ::
  "Square \<Rightarrow> (addr \<Rightarrow> Piece) \<Rightarrow> Square \<times> (addr \<Rightarrow> Piece)" where
  "remove_piece self h =
     (if has_piece self
      then (case sq_piece self of
              Some a \<Rightarrow> (self\<lparr>sq_piece := None\<rparr>, h(a := (h a)\<lparr>square := None\<rparr>))
            | None \<Rightarrow> (self, h))
      else (self, h))"

subsection \<open>Board\<close>

text \<open>
  The squares are created file by file and, within a file, rank by rank, and the list is
  reshaped to \<open>files \<times> ranks\<close>: the square at \<^verbatim>\<open>[file, rank]\<close> is the element
  \<open>file * ranks + rank\<close> of the list, and \<^verbatim>\<open>squares.flat\<close> runs through the list in order.
  The dimensions are natural numbers; what \<^verbatim>\<open>reshape\<close> does with negative ones is not
  modelled.
\<close>

definition Board_init :: "nat \<Rightarrow> nat \<Rightarrow> world \<Rightarrow> error + (Board \<times> world)" where
  "Board_init numFiles numRanks w =
     and_then
       (if numFiles \<noteq> 8 \<or> numRanks \<noteq> 8
        then and_then (defineFILEandRANK (int numFiles) (int numRanks))
               (\<lambda>(fileList, rankList). Inr (w\<lparr>FILE := StrList fileList, RANK := StrList rankList\<rparr>))
        else Inr w)
       (\<lambda>w1.
          and_then
            (collect (concat (map (\<lambda>f. map (\<lambda>r. Square_init (FILE w1) (RANK w1) f r (next_board w1))
                                           [0..int numRanks - 1])
                                  [0..int numFiles - 1])))
            (\<lambda>emptyBoard.
               Inr (\<lparr>ident = next_board w1, files = numFiles, ranks = numRanks, pieces = [],
                     queens = (\<lambda>c. []), rooks = (\<lambda>c. []), knights = (\<lambda>c. []),
                     bishops = (\<lambda>c. []), squares = emptyBoard,
                     white_king = None, black_king = None\<rparr>,
                    w1\<lparr>next_board := Suc (next_board w1)\<rparr>)))"

text \<open>
  \<^verbatim>\<open>piece_lists\<close> is a dictionary from the four tracked type names to the very dictionaries
  held in \<^verbatim>\<open>queens\<close>, \<^verbatim>\<open>rooks\<close>, \<^verbatim>\<open>knights\<close> and \<^verbatim>\<open>bishops\<close>: reading it reads those fields,
  and assigning \<^verbatim>\<open>piece_lists[name][color]\<close> writes them.
\<close>

definition piece_lists :: "Board \<Rightarrow> string \<rightharpoonup> (color \<Rightarrow> addr list)" where
  "piece_lists self =
     [''Queen'' \<mapsto> queens self, ''Rook'' \<mapsto> rooks self,
      ''Knight'' \<mapsto> knights self, ''Bishop'' \<mapsto> bishops self]"

definition piece_lists_assign :: "string \<Rightarrow> color \<Rightarrow> addr list \<Rightarrow> Board \<Rightarrow> Board" where
  "piece_lists_assign n c xs self =
     (if n = ''Queen'' then self\<lparr>queens := (queens self)(c := xs)\<rparr>
      else if n = ''Rook'' then self\<lparr>rooks := (rooks self)(c := xs)\<rparr>
      else if n = ''Knight'' then self\<lparr>knights := (knights self)(c := xs)\<rparr>
      else if n = ''Bishop'' then self\<lparr>bishops := (bishops self)(c := xs)\<rparr>
      else self)"

text \<open>
  \<^verbatim>\<open>list(set(xs))\<close> keeps one copy of every element, in an order Python does not promise.
  The model keeps the order of the last occurrences; nothing below depends on the order.
\<close>

definition list_set :: "addr list \<Rightarrow> addr list" where
  "list_set xs = remdups xs"

text \<open>The loop of the full scan, over \<^verbatim>\<open>self.squares.flat\<close>.\<close>

fun scan_squares :: "Square list \<Rightarrow> (addr \<Rightarrow> Piece) \<Rightarrow> Board \<Rightarrow> Board" where
  "scan_squares [] h self = self"
| "scan_squares (sq # sqs) h self =
     scan_squares sqs h
       (if has_piece sq
        then (case sq_piece sq of
                None \<Rightarrow> self
              | Some p \<Rightarrow>
                  (let n = get_name (h p); c = get_color (h p);
                       self1 = self\<lparr>pieces := pieces self @ [p]\<rparr>
                   in case piece_lists self1 n of
                        None \<Rightarrow> self1
                      | Some idx \<Rightarrow> piece_lists_assign n c (idx c @ [p]) self1))
        else self)"

text \<open>The loop over \<^verbatim>\<open>reversed(pieces_set)\<close>; the caller passes the reversed list.\<close>

fun add_pieces :: "addr list \<Rightarrow> (addr \<Rightarrow> Piece) \<Rightarrow> Board \<Rightarrow> Board" where
  "add_pieces [] h self = self"
| "add_pieces (p # ps) h self =
     add_pieces ps h
       (let n = get_name (h p); c = get_color (h p);
            self1 = self\<lparr>pieces := pieces self @ [p]\<rparr>
        in case piece_lists self1 n of
             None \<Rightarrow> self1
           | Some idx \<Rightarrow> piece_lists_assign n c (list_set (idx c @ [p])) self1)"

text \<open>
  The loop over \<^verbatim>\<open>reversed(pieces_removed)\<close>. \<^verbatim>\<open>list.remove\<close> deletes the first occurrence
  and raises \<open>ValueError\<close> when there is none.
\<close>

fun remove_pieces :: "addr list \<Rightarrow> (addr \<Rightarrow> Piece) \<Rightarrow> Board \<Rightarrow> error + Board" where
  "remove_pieces [] h self = Inr self"
| "remove_pieces (p # ps) h self =
     (let n = get_name (h p); c = get_color (h p)
      in if p \<notin> set (pieces self) then Inl ValueError
         else (let self1 = self\<lparr>pieces := remove1 p (pieces self)\<rparr>
               in case piece_lists self1 n of
                    None \<Rightarrow> remove_pieces ps h self1
                  | Some idx \<Rightarrow>
                      if p \<notin> set (idx c) then Inl ValueError
                      else remove_pieces ps h
                             (piece_lists_assign n c (list_set (remove1 p (idx c))) self1)))"

definition update_pieces ::
  "Board \<Rightarrow> addr list \<Rightarrow> addr list \<Rightarrow> (addr \<Rightarrow> Piece) \<Rightarrow> error + Board" where
  "update_pieces self pieces_set pieces_removed h =
     and_then
       (if pieces self = [] then Inr (scan_squares (squares self) h self)
        else (let self1 = (if pieces_set \<noteq> [] then add_pieces (rev pieces_set) h self else self)
              in if pieces_removed \<noteq> [] then remove_pieces (rev pieces_removed) h self1
                 else Inr self1))
       (\<lambda>self2. Inr (self2\<lparr>pieces := list_set (pieces self2)\<rparr>))"

definition get_pieces :: "Board \<Rightarrow> addr list" where
  "get_pieces self = pieces self"

section \<open>Scenario builders\<close>

text \<open>\<^verbatim>\<open>board.squares[file, rank]\<close>: the position of that square in the list of squares.\<close>

definition squares_index :: "Board \<Rightarrow> int \<Rightarrow> int \<Rightarrow> error + nat" where
  "squares_index b f r =
     and_then (norm_index f (files b)) (\<lambda>i.
     and_then (norm_index r (ranks b)) (\<lambda>j. Inr (i * ranks b + j)))"

text \<open>\<^verbatim>\<open>board.squares[file, rank].set_piece(p)\<close> for a piece \<open>p\<close> already at hand.\<close>

definition squares_set_piece ::
  "int \<Rightarrow> int \<Rightarrow> addr option \<Rightarrow> Board \<times> world \<Rightarrow> error + (Board \<times> world)" where
  "squares_set_piece f r p = (\<lambda>(b, w).
     and_then (squares_index b f r) (\<lambda>i.
     and_then (set_piece (squares b ! i) p (heap w)) (\<lambda>(sq, h).
       Inr (b\<lparr>squares := (squares b)[i := sq]\<rparr>, w\<lparr>heap := h\<rparr>))))"

text \<open>
  \<^verbatim>\<open>board.squares[file, rank].set_piece(K(color))\<close>: the square is looked up, then the piece
  is constructed, then it is set.
\<close>

definition squares_set_new ::
  "int \<Rightarrow> int \<Rightarrow> (color \<Rightarrow> world \<Rightarrow> addr \<times> world) \<Rightarrow> color \<Rightarrow> Board \<times> world
     \<Rightarrow> error + (Board \<times> world)" where
  "squares_set_new f r K c = (\<lambda>(b, w).
     and_then (squares_index b f r) (\<lambda>i.
       (case K c w of (p, w1) \<Rightarrow>
          and_then (set_piece (squares b ! i) (Some p) (heap w1)) (\<lambda>(sq, h).
            Inr (b\<lparr>squares := (squares b)[i := sq]\<rparr>, w1\<lparr>heap := h\<rparr>)))))"

text \<open>The last four statements of every builder before \<^verbatim>\<open>update_pieces\<close>.\<close>

definition set_kings :: "Board \<times> world \<Rightarrow> error + (Board \<times> world)" where
  "set_kings = (\<lambda>(b, w).
     (case King White w of (wk, w1) \<Rightarrow>
        and_then (squares_set_piece 4 7 (Some wk) (b\<lparr>white_king := Some wk\<rparr>, w1)) (\<lambda>(b1, w2).
          (case King Black w2 of (bk, w3) \<Rightarrow>
             squares_set_piece 4 0 (Some bk) (b1\<lparr>black_king := Some bk\<rparr>, w3)))))"

definition finish :: "Board \<times> world \<Rightarrow> error + (Board \<times> world)" where
  "finish = (\<lambda>(b, w). and_then (update_pieces b [] [] (heap w)) (\<lambda>b1. Inr (b1, w)))"

definition makeStandardBoard :: "world \<Rightarrow> error + (Board \<times> world)" where
  "makeStandardBoard w =
     and_then (Board_init 8 8 w) (\<lambda>s0.
     and_then (for_each [0..7] (\<lambda>f s.
                 and_then (squares_set_new f 6 Pawn White s) (squares_set_new f 1 Pawn Black)) s0) (\<lambda>s1.
     and_then (for_each [0, 7] (\<lambda>f s.
                 and_then (squares_set_new f 7 Rook White s) (squares_set_new f 0 Rook Black)) s1) (\<lambda>s2.
     and_then (for_each [1, 6] (\<lambda>f s.
                 and_then (squares_set_new f 7 Knight White s) (squares_set_new f 0 Knight Black)) s2) (\<lambda>s3.
     and_then (for_each [2, 5] (\<lambda>f s.
                 and_then (squares_set_new f 7 Bishop White s) (squares_set_new f 0 Bishop Black)) s3) (\<lambda>s4.
     and_then (squares_set_new 3 7 Queen White s4) (\<lambda>s5.
     and_then (squares_set_new 3 0 Queen Black s5) (\<lambda>s6.
     and_then (set_kings s6) finish)))))))"

text \<open>
  \<^verbatim>\<open>s.lower()\<close>: the letters \<open>A\<close> to \<open>Z\<close> move to \<open>a\<close> to \<open>z\<close>, every other character of
  the ASCII range stays. Python also lowers letters outside ASCII, none of them to or from
  the letters \<open>w\<close> and \<open>b\<close>, so the test \<^verbatim>\<open>startswith\<close> below is not affected.
\<close>

definition lower_char :: "char \<Rightarrow> char" where
  "lower_char c =
     (case map_of (zip ''ABCDEFGHIJKLMNOPQRSTUVWXYZ'' ''abcdefghijklmnopqrstuvwxyz'') c of
        None \<Rightarrow> c
      | Some d \<Rightarrow> d)"

definition lower :: "string \<Rightarrow> string" where
  "lower s = map lower_char s"

definition startswith :: "string \<Rightarrow> string \<Rightarrow> bool" where
  "startswith s p = (take (length p) s = p)"

text \<open>
  The two endgame builders return \<^verbatim>\<open>None\<close> after printing a message when the color is not
  recognised; the board constructed before the test is dropped.
\<close>

definition makeTwoRooksEndgameBoard :: "string \<Rightarrow> world \<Rightarrow> error + (Board option \<times> world)" where
  "makeTwoRooksEndgameBoard rookColor w =
     and_then (Board_init 8 8 w) (\<lambda>(b, w1).
       (case (if startswith (lower rookColor) ''w'' then Some (White, 7)
              else if startswith (lower rookColor) ''b'' then Some (Black, 0)
              else None) of
          None \<Rightarrow>
            Inr (None, w1\<lparr>stdout := stdout w1 @ [''rookColor must be either 'black' or 'white'.'']\<rparr>)
        | Some (rookColor1, r) \<Rightarrow>
            and_then (for_each [0, 7] (\<lambda>f. squares_set_new f r Rook rookColor1) (b, w1)) (\<lambda>s1.
            and_then (set_kings s1) (\<lambda>s2.
            and_then (finish s2) (\<lambda>(b3, w3). Inr (Some b3, w3))))))"

definition makeQueenEndgameBoard :: "string \<Rightarrow> world \<Rightarrow> error + (Board option \<times> world)" where
  "makeQueenEndgameBoard queenColor w =
     and_then (Board_init 8 8 w) (\<lambda>(b, w1).
       (case (if startswith (lower queenColor) ''w'' then Some (White, 7)
              else if startswith (lower queenColor) ''b'' then Some (Black, 0)
              else None) of
          None \<Rightarrow>
            Inr (None, w1\<lparr>stdout := stdout w1 @ [''queenColor must be either 'black' or 'white'.'']\<rparr>)
        | Some (queenColor1, r) \<Rightarrow>
            and_then (for_each [0, 7] (\<lambda>f. squares_set_new f r Queen queenColor1) (b, w1)) (\<lambda>s1.
            and_then (set_kings s1) (\<lambda>s2.
            and_then (finish s2) (\<lambda>(b3, w3). Inr (Some b3, w3))))))"

section \<open>Vocabulary of the properties\<close>

text \<open>
  The state of the module right after it is imported: the two label strings of the source,
  no board and no piece constructed, nothing printed. An address that has not been
  allocated holds a placeholder no operation reads.
\<close>

definition world_at_import :: world where
  "world_at_import =
     \<lparr>FILE = FILE_default, RANK = RANK_default,
      heap = (\<lambda>a. \<lparr>get_name = [], get_color = White, square = None\<rparr>),
      next_piece = 0, next_board = 0, stdout = []\<rparr>"

text \<open>The pieces found on a sequence of squares, in the order of the squares.\<close>

fun somes :: "'a option list \<Rightarrow> 'a list" where
  "somes [] = []"
| "somes (None # xs) = somes xs"
| "somes (Some x # xs) = x # somes xs"

definition occupants :: "Square list \<Rightarrow> addr list" where
  "occupants sqs = somes (map sq_piece sqs)"

text \<open>How many pieces of a given type name and color the flat list of a board holds.\<close>

definition count_kind :: "Board \<Rightarrow> (addr \<Rightarrow> Piece) \<Rightarrow> string \<Rightarrow> color \<Rightarrow> nat" where
  "count_kind b h n c =
     length (filter (\<lambda>a. get_name (h a) = n \<and> get_color (h a) = c) (pieces b))"

text \<open>
  The list \<^verbatim>\<open>piece_lists[name][color]\<close> that indexes a piece, when its type name is one of
  the four keys.
\<close>

definition tracked_index :: "Board \<Rightarrow> (addr \<Rightarrow> Piece) \<Rightarrow> addr \<Rightarrow> addr list option" where
  "tracked_index b h p =
     map_option (\<lambda>idx. idx (get_color (h p))) (piece_lists b (get_name (h p)))"

text \<open>
  The names \<^verbatim>\<open>computerToAlgebraic\<close> gives to the 64 coordinates of an 8 by 8 board, file by
  file, under given label tables.
\<close>

definition names_8x8 :: "labels \<Rightarrow> labels \<Rightarrow> (error + string) list" where
  "names_8x8 FILE_tab RANK_tab =
     concat (map (\<lambda>f. map (\<lambda>r. computerToAlgebraic FILE_tab RANK_tab f r) [0..7]) [0..7])"

section \<open>Coordinate round trip\<close>

lemma small_index_cases:
  fixes i :: int
  assumes "0 \<le> i" and "i < 8"
  shows "i = 0 \<or> i = 1 \<or> i = 2 \<or> i = 3 \<or> i = 4 \<or> i = 5 \<or> i = 6 \<or> i = 7"
  using assms by arith

text \<open>
  C1. On the default tables, for every file and rank in \<open>[0, 8)\<close>, converting the pair to
  algebraic notation and converting the name back gives the pair again.
\<close>

theorem coordinate_roundtrip:
  assumes "0 \<le> f" and "f < 8" and "0 \<le> r" and "r < 8"
  shows "and_then (computerToAlgebraic FILE_default RANK_default f r)
           (algebraicToComputer FILE_default RANK_default) = Inr (f, r)"
proof -
  have label: "and_then (computerToAlgebraic FILE_default RANK_default i j)
           (algebraicToComputer FILE_default RANK_default) = Inr (i, j)"
    if "i = 0 \<or> i = 1 \<or> i = 2 \<or> i = 3 \<or> i = 4 \<or> i = 5 \<or> i = 6 \<or> i = 7"
      and "j = 0 \<or> j = 1 \<or> j = 2 \<or> j = 3 \<or> j = 4 \<or> j = 5 \<or> j = 6 \<or> j = 7"
    for i j
    using that
    by (elim disjE)
       (simp_all add: computerToAlgebraic_def algebraicToComputer_def FILE_default_def
          RANK_default_def getitem_def norm_index_def)
  show ?thesis
    by (rule label) (rule small_index_cases, fact, fact)+
qed

theorem coordinate_roundtrip_witness:
  "(0::int) \<le> 4 \<and> (4::int) < 8 \<and> (0::int) \<le> 6 \<and> (6::int) < 8
   \<and> computerToAlgebraic FILE_default RANK_default 4 6 = Inr ''e2''
   \<and> and_then (computerToAlgebraic FILE_default RANK_default 4 6)
        (algebraicToComputer FILE_default RANK_default) = Inr (4, 6)"
  using coordinate_roundtrip [of 4 6]
  by (simp add: computerToAlgebraic_def FILE_default_def RANK_default_def getitem_def
        norm_index_def)

section \<open>The link between a square and its piece\<close>

text \<open>
  C3. Setting a piece on a square leaves the piece's back-reference equal to that square.
  Removing the piece of an occupied square empties both the square and the back-reference
  of the piece that was on it, and on an empty square \<open>remove_piece\<close> changes nothing.
\<close>

theorem set_then_remove_piece:
  "(\<exists>self1 h1. set_piece self (Some a) h = Inr (self1, h1)
       \<and> ref self1 = ref self \<and> sq_piece self1 = Some a \<and> square (h1 a) = Some (ref self1))
   \<and> (sq_piece self = Some a \<longrightarrow>
        (\<exists>self1 h1. remove_piece self h = (self1, h1)
           \<and> ref self1 = ref self \<and> sq_piece self1 = None \<and> square (h1 a) = None))
   \<and> (sq_piece self = None \<longrightarrow> remove_piece self h = (self, h))"
  by (simp add: set_piece_def remove_piece_def has_piece_def ref_def)

theorem set_then_remove_piece_witness:
  "sq_piece \<lparr>sq_file = 4, sq_rank = 7, sq_board = 0, sq_color = ''dark'', sq_piece = Some 2,
             sq_name = ''e1'', sq_selected = False\<rparr> = Some 2
   \<and> (\<exists>self1 h1.
         remove_piece \<lparr>sq_file = 4, sq_rank = 7, sq_board = 0, sq_color = ''dark'',
                       sq_piece = Some 2, sq_name = ''e1'', sq_selected = False\<rparr>
           (\<lambda>a. \<lparr>get_name = ''King'', get_color = White, square = Some (0, 4, 7)\<rparr>) = (self1, h1)
         \<and> ref self1 = (0, 4, 7) \<and> sq_piece self1 = None \<and> square (h1 2) = None)"
  using set_then_remove_piece
    [of "\<lparr>sq_file = 4, sq_rank = 7, sq_board = 0, sq_color = ''dark'', sq_piece = Some 2,
          sq_name = ''e1'', sq_selected = False\<rparr>"
        2 "\<lambda>a. \<lparr>get_name = ''King'', get_color = White, square = Some (0, 4, 7)\<rparr>"]
  by (simp add: ref_def)

section \<open>Generated label tables\<close>

text \<open>
  C7. The labels generated for a board of 5 files and 5 ranks: the files are the first five
  letters, and the ranks run from \<open>4\<close> down to \<open>0\<close>, one less than the labels \<open>5\<close> down to
  \<open>1\<close> that algebraic notation uses.
\<close>

theorem defineFILEandRANK_5_5:
  "defineFILEandRANK 5 5
     = Inr ([''a'', ''b'', ''c'', ''d'', ''e''], [''4'', ''3'', ''2'', ''1'', ''0''])"
  by (simp add: defineFILEandRANK_def alpha_def getitem_def norm_index_def str_def
        digits.simps upto.simps)

section \<open>Evaluating the builders\<close>

lemma upto_0_7: "[0..7] = [0, 1, 2, 3, 4, 5, 6, 7::int]"
  by (simp add: upto.simps)

lemma norm_index_in_range: "0 \<le> i \<Longrightarrow> i < int n \<Longrightarrow> norm_index i n = Inr (nat i)"
  by (simp add: norm_index_def)

lemma none64:
  "replicate 64 None = [None, None, None, None, None, None, None, None,
     None, None, None, None, None, None, None, None,
     None, None, None, None, None, None, None, None,
     None, None, None, None, None, None, None, None,
     None, None, None, None, None, None, None, None,
     None, None, None, None, None, None, None, None,
     None, None, None, None, None, None, None, None,
     None, None, None, None, None, None, None, (None :: addr option)]"
  by code_simp

lemma list_update_Cons_numeral: "(x # xs)[numeral k := y] = x # xs[pred_numeral k := y]"
  by (simp add: numeral_eq_Suc)

lemma Board_init_default:
  assumes "FILE w = FILE_default" and "RANK w = RANK_default"
  shows "\<exists>sqs. Board_init 8 8 w =
           Inr (\<lparr>ident = next_board w, files = 8, ranks = 8, pieces = [],
                 queens = (\<lambda>c. []), rooks = (\<lambda>c. []), knights = (\<lambda>c. []),
                 bishops = (\<lambda>c. []), squares = sqs,
                 white_king = None, black_king = None\<rparr>,
                w\<lparr>next_board := Suc (next_board w)\<rparr>)
         \<and> map sq_piece sqs = replicate 64 None"
  using assms
  by (simp add: Board_init_def Square_init_def computerToAlgebraic_def upto_0_7
        FILE_default_def RANK_default_def getitem_def norm_index_def getSquareColor_def none64)

lemma set_new:
  assumes "files b = 8" and "ranks b = 8" and "0 \<le> f" and "f < 8" and "0 \<le> r" and "r < 8"
  shows "squares_set_new f r (Piece_init n) c (b, w) =
    Inr (b\<lparr>squares := (squares b)[nat f * 8 + nat r :=
               (squares b ! (nat f * 8 + nat r))\<lparr>sq_piece := Some (next_piece w)\<rparr>]\<rparr>,
         w\<lparr>heap := (heap w)(next_piece w := \<lparr>get_name = n, get_color = c,
                square = Some (ref (squares b ! (nat f * 8 + nat r)))\<rparr>),
           next_piece := Suc (next_piece w)\<rparr>)"
  using assms
  by (simp add: squares_set_new_def squares_index_def norm_index_in_range set_piece_def
        Piece_init_def)

lemma set_kings_eq:
  assumes "files b = 8" and "ranks b = 8"
  shows "set_kings (b, w) =
    Inr (b\<lparr>white_king := Some (next_piece w), black_king := Some (Suc (next_piece w)),
           squares := (squares b)[39 := (squares b ! 39)\<lparr>sq_piece := Some (next_piece w)\<rparr>,
                       32 := ((squares b)[39 := (squares b ! 39)\<lparr>sq_piece := Some (next_piece w)\<rparr>] ! 32)
                               \<lparr>sq_piece := Some (Suc (next_piece w))\<rparr>]\<rparr>,
         w\<lparr>heap := (heap w)
                (next_piece w := \<lparr>get_name = ''King'', get_color = White,
                    square = Some (ref (squares b ! 39))\<rparr>,
                 Suc (next_piece w) := \<lparr>get_name = ''King'', get_color = Black,
                    square = Some (ref ((squares b)[39 := (squares b ! 39)\<lparr>sq_piece := Some (next_piece w)\<rparr>] ! 32))\<rparr>),
           next_piece := Suc (Suc (next_piece w))\<rparr>)"
  using assms
  by (simp add: set_kings_def squares_set_piece_def squares_index_def norm_index_in_range
        set_piece_def King_def Piece_init_def)

lemma scan_fields:
  "pieces (scan_squares sqs h b) = pieces b @ occupants sqs"
  "queens (scan_squares sqs h b) c =
     queens b c @ filter (\<lambda>p. get_name (h p) = ''Queen'' \<and> get_color (h p) = c) (occupants sqs)"
  "rooks (scan_squares sqs h b) c =
     rooks b c @ filter (\<lambda>p. get_name (h p) = ''Rook'' \<and> get_color (h p) = c) (occupants sqs)"
  "knights (scan_squares sqs h b) c =
     knights b c @ filter (\<lambda>p. get_name (h p) = ''Knight'' \<and> get_color (h p) = c) (occupants sqs)"
  "bishops (scan_squares sqs h b) c =
     bishops b c @ filter (\<lambda>p. get_name (h p) = ''Bishop'' \<and> get_color (h p) = c) (occupants sqs)"
  "white_king (scan_squares sqs h b) = white_king b"
  "black_king (scan_squares sqs h b) = black_king b"
  "squares (scan_squares sqs h b) = squares b"
  by (induction sqs arbitrary: b;
      auto simp: has_piece_def piece_lists_def piece_lists_assign_def Let_def occupants_def
           split: option.splits)+

lemma finish_eq:
  "pieces b = [] \<Longrightarrow> finish (b, w) =
     Inr ((scan_squares (squares b) (heap w) b)\<lparr>pieces := remdups (occupants (squares b))\<rparr>, w)"
  by (simp add: finish_def update_pieces_def list_set_def scan_fields)


lemmas builder_simps = Rook_def Pawn_def Knight_def Bishop_def Queen_def upto_0_7 set_new
  set_kings_eq finish_eq scan_fields occupants_def map_update none64 list_update_Cons_numeral
  count_kind_def

section \<open>The color selector\<close>

lemma lower_char_w: "lower_char c = CHR ''w'' \<longleftrightarrow> c = CHR ''w'' \<or> c = CHR ''W''"
  by (auto simp: lower_char_def)

lemma lower_char_b: "lower_char c = CHR ''b'' \<longleftrightarrow> c = CHR ''b'' \<or> c = CHR ''B''"
  by (auto simp: lower_char_def)

lemma startswith_lower_w:
  "startswith (lower s) ''w'' \<longleftrightarrow> (\<exists>t. s = CHR ''w'' # t \<or> s = CHR ''W'' # t)"
  by (cases s) (auto simp: startswith_def lower_def lower_char_w)

lemma startswith_lower_b:
  "startswith (lower s) ''b'' \<longleftrightarrow> (\<exists>t. s = CHR ''b'' # t \<or> s = CHR ''B'' # t)"
  by (cases s) (auto simp: startswith_def lower_def lower_char_b)

section \<open>The two-rooks endgame\<close>

text \<open>
  C9. With the default label tables, \<open>makeTwoRooksEndgameBoard\<close> looks at the first letter
  of the lowered selector. With \<open>w\<close> the board holds four pieces, two white rooks and the
  two kings, and the rook index holds the two rooks under white and nothing under black;
  with \<open>b\<close> the same for black. With any other selector it prints its message and returns
  no board.
\<close>

theorem makeTwoRooksEndgameBoard_selector:
  assumes "FILE w = FILE_default" and "RANK w = RANK_default"
  shows "(startswith (lower s) ''w'' \<longrightarrow>
            (\<exists>b w1. makeTwoRooksEndgameBoard s w = Inr (Some b, w1)
               \<and> length (pieces b) = 4 \<and> distinct (pieces b)
               \<and> count_kind b (heap w1) ''Rook'' White = 2
               \<and> count_kind b (heap w1) ''King'' White = 1
               \<and> count_kind b (heap w1) ''King'' Black = 1
               \<and> length (rooks b White) = 2 \<and> distinct (rooks b White)
               \<and> set (rooks b White) \<subseteq> set (pieces b) \<and> rooks b Black = []))
       \<and> (\<not> startswith (lower s) ''w'' \<and> startswith (lower s) ''b'' \<longrightarrow>
            (\<exists>b w1. makeTwoRooksEndgameBoard s w = Inr (Some b, w1)
               \<and> length (pieces b) = 4 \<and> distinct (pieces b)
               \<and> count_kind b (heap w1) ''Rook'' Black = 2
               \<and> count_kind b (heap w1) ''King'' White = 1
               \<and> count_kind b (heap w1) ''King'' Black = 1
               \<and> length (rooks b Black) = 2 \<and> distinct (rooks b Black)
               \<and> set (rooks b Black) \<subseteq> set (pieces b) \<and> rooks b White = []))
       \<and> (\<not> startswith (lower s) ''w'' \<and> \<not> startswith (lower s) ''b'' \<longrightarrow>
            (\<exists>w1. makeTwoRooksEndgameBoard s w = Inr (None, w1)
               \<and> stdout w1 = stdout w @ [''rookColor must be either 'black' or 'white'.'']))"
proof -
  obtain sqs where init: "Board_init 8 8 w =
           Inr (\<lparr>ident = next_board w, files = 8, ranks = 8, pieces = [],
                 queens = (\<lambda>c. []), rooks = (\<lambda>c. []), knights = (\<lambda>c. []),
                 bishops = (\<lambda>c. []), squares = sqs,
                 white_king = None, black_king = None\<rparr>,
                w\<lparr>next_board := Suc (next_board w)\<rparr>)"
    and occ: "map sq_piece sqs = replicate 64 None"
    using Board_init_default [OF assms] by blast
  show ?thesis
    by (simp add: makeTwoRooksEndgameBoard_def init occ builder_simps)
qed


theorem makeTwoRooksEndgameBoard_selector_witness:
  "FILE world_at_import = FILE_default \<and> RANK world_at_import = RANK_default
   \<and> startswith (lower ''White'') ''w''
   \<and> (\<exists>b w1. makeTwoRooksEndgameBoard ''White'' world_at_import = Inr (Some b, w1)
         \<and> length (pieces b) = 4 \<and> distinct (pieces b)
         \<and> count_kind b (heap w1) ''Rook'' White = 2
         \<and> count_kind b (heap w1) ''King'' White = 1
         \<and> count_kind b (heap w1) ''King'' Black = 1
         \<and> length (rooks b White) = 2 \<and> rooks b Black = [])
   \<and> \<not> startswith (lower ''purple'') ''w'' \<and> \<not> startswith (lower ''purple'') ''b''
   \<and> (\<exists>w1. makeTwoRooksEndgameBoard ''purple'' world_at_import = Inr (None, w1)
         \<and> stdout w1 = [''rookColor must be either 'black' or 'white'.''])"
proof -
  have tabs: "FILE world_at_import = FILE_default" "RANK world_at_import = RANK_default"
    by (simp_all add: world_at_import_def)
  have sel: "startswith (lower ''White'') ''w''" "\<not> startswith (lower ''purple'') ''w''"
    "\<not> startswith (lower ''purple'') ''b''"
    by (simp_all add: startswith_def lower_def lower_char_def)
  have out: "stdout world_at_import = []"
    by (simp add: world_at_import_def)
  from makeTwoRooksEndgameBoard_selector [OF tabs, of "''White''"]
       makeTwoRooksEndgameBoard_selector [OF tabs, of "''purple''"] tabs sel out
  show ?thesis by auto
qed

section \<open>The queen endgame\<close>

text \<open>
  C4, as amended. With the default label tables and a selector whose lowered form starts
  with \<open>w\<close> or \<open>b\<close>, the board of \<open>makeQueenEndgameBoard\<close> holds exactly one king of each
  color, at least one queen of the selected color and no queen of the other color.
\<close>

theorem makeQueenEndgameBoard_pieces:
  assumes "FILE w = FILE_default" and "RANK w = RANK_default"
  shows "(startswith (lower s) ''w'' \<longrightarrow>
            (\<exists>b w1. makeQueenEndgameBoard s w = Inr (Some b, w1)
               \<and> distinct (pieces b)
               \<and> count_kind b (heap w1) ''King'' White = 1
               \<and> count_kind b (heap w1) ''King'' Black = 1
               \<and> 1 \<le> count_kind b (heap w1) ''Queen'' White
               \<and> count_kind b (heap w1) ''Queen'' Black = 0
               \<and> queens b White \<noteq> [] \<and> queens b Black = []))
       \<and> (\<not> startswith (lower s) ''w'' \<and> startswith (lower s) ''b'' \<longrightarrow>
            (\<exists>b w1. makeQueenEndgameBoard s w = Inr (Some b, w1)
               \<and> distinct (pieces b)
               \<and> count_kind b (heap w1) ''King'' White = 1
               \<and> count_kind b (heap w1) ''King'' Black = 1
               \<and> 1 \<le> count_kind b (heap w1) ''Queen'' Black
               \<and> count_kind b (heap w1) ''Queen'' White = 0
               \<and> queens b Black \<noteq> [] \<and> queens b White = []))"
proof -
  obtain sqs where init: "Board_init 8 8 w =
           Inr (\<lparr>ident = next_board w, files = 8, ranks = 8, pieces = [],
                 queens = (\<lambda>c. []), rooks = (\<lambda>c. []), knights = (\<lambda>c. []),
                 bishops = (\<lambda>c. []), squares = sqs,
                 white_king = None, black_king = None\<rparr>,
                w\<lparr>next_board := Suc (next_board w)\<rparr>)"
    and occ: "map sq_piece sqs = replicate 64 None"
    using Board_init_default [OF assms] by blast
  show ?thesis
    by (simp add: makeQueenEndgameBoard_def init occ builder_simps)
qed

theorem makeQueenEndgameBoard_pieces_witness:
  "FILE world_at_import = FILE_default \<and> RANK world_at_import = RANK_default
   \<and> \<not> startswith (lower ''Black'') ''w'' \<and> startswith (lower ''Black'') ''b''
   \<and> (\<exists>b w1. makeQueenEndgameBoard ''Black'' world_at_import = Inr (Some b, w1)
         \<and> distinct (pieces b)
         \<and> count_kind b (heap w1) ''King'' White = 1
         \<and> count_kind b (heap w1) ''King'' Black = 1
         \<and> 1 \<le> count_kind b (heap w1) ''Queen'' Black
         \<and> count_kind b (heap w1) ''Queen'' White = 0
         \<and> queens b Black \<noteq> [] \<and> queens b White = [])"
proof -
  have tabs: "FILE world_at_import = FILE_default" "RANK world_at_import = RANK_default"
    by (simp_all add: world_at_import_def)
  have sel: "\<not> startswith (lower ''Black'') ''w''" "startswith (lower ''Black'') ''b''"
    by (simp_all add: startswith_def lower_def lower_char_def)
  from makeQueenEndgameBoard_pieces [OF tabs, of "''Black''"] tabs sel
  show ?thesis by auto
qed

text \<open>
  C4, as stated, fails: with the selector \<open>w\<close> the board holds two white queens and no
  black queen, not one queen of each color.
\<close>

theorem makeQueenEndgameBoard_two_queens:
  "\<exists>b w1. makeQueenEndgameBoard ''w'' world_at_import = Inr (Some b, w1)
     \<and> count_kind b (heap w1) ''Queen'' White = 2
     \<and> count_kind b (heap w1) ''Queen'' Black = 0
     \<and> length (queens b White) = 2 \<and> distinct (queens b White) \<and> queens b Black = []"
proof -
  have assms: "FILE world_at_import = FILE_default" "RANK world_at_import = RANK_default"
    by (simp_all add: world_at_import_def)
  obtain sqs where init: "Board_init 8 8 world_at_import =
           Inr (\<lparr>ident = next_board world_at_import, files = 8, ranks = 8, pieces = [],
                 queens = (\<lambda>c. []), rooks = (\<lambda>c. []), knights = (\<lambda>c. []),
                 bishops = (\<lambda>c. []), squares = sqs,
                 white_king = None, black_king = None\<rparr>,
                world_at_import\<lparr>next_board := Suc (next_board world_at_import)\<rparr>)"
    and occ: "map sq_piece sqs = replicate 64 None"
    using Board_init_default [OF assms] by blast
  have sel: "startswith (lower ''w'') ''w''"
    by (simp add: startswith_def lower_def lower_char_def)
  show ?thesis
    by (simp add: makeQueenEndgameBoard_def init occ sel builder_simps)
qed

section \<open>The standard opening\<close>

text \<open>
  C2. With the default label tables, \<open>makeStandardBoard\<close> returns a board whose flat list
  holds 32 distinct pieces, whose rook index holds two distinct rooks under white, and
  whose two king references are set and differ.
\<close>

theorem makeStandardBoard_counts:
  assumes "FILE w = FILE_default" and "RANK w = RANK_default"
  shows "\<exists>b w1. makeStandardBoard w = Inr (b, w1)
     \<and> length (pieces b) = 32 \<and> distinct (pieces b)
     \<and> length (rooks b White) = 2 \<and> distinct (rooks b White)
     \<and> white_king b \<noteq> None \<and> black_king b \<noteq> None \<and> white_king b \<noteq> black_king b"
proof -
  obtain sqs where init: "Board_init 8 8 w =
           Inr (\<lparr>ident = next_board w, files = 8, ranks = 8, pieces = [],
                 queens = (\<lambda>c. []), rooks = (\<lambda>c. []), knights = (\<lambda>c. []),
                 bishops = (\<lambda>c. []), squares = sqs,
                 white_king = None, black_king = None\<rparr>,
                w\<lparr>next_board := Suc (next_board w)\<rparr>)"
    and occ: "map sq_piece sqs = replicate 64 None"
    using Board_init_default [OF assms] by blast
  show ?thesis
    by (simp add: makeStandardBoard_def init occ builder_simps)
qed

theorem makeStandardBoard_counts_witness:
  "FILE world_at_import = FILE_default \<and> RANK world_at_import = RANK_default
   \<and> (\<exists>b w1. makeStandardBoard world_at_import = Inr (b, w1)
     \<and> length (pieces b) = 32 \<and> distinct (pieces b)
     \<and> length (rooks b White) = 2 \<and> distinct (rooks b White)
     \<and> white_king b \<noteq> None \<and> black_king b \<noteq> None \<and> white_king b \<noteq> black_king b)"
proof -
  have tabs: "FILE world_at_import = FILE_default" "RANK world_at_import = RANK_default"
    by (simp_all add: world_at_import_def)
  from makeStandardBoard_counts [OF tabs] tabs show ?thesis by simp
qed

section \<open>Synchronizing the piece lists\<close>

lemma piece_lists_pieces [simp]: "piece_lists (b\<lparr>pieces := xs\<rparr>) = piece_lists b"
  by (simp add: piece_lists_def)

lemma pieces_assign [simp]: "pieces (piece_lists_assign n c xs b) = pieces b"
  by (simp add: piece_lists_assign_def)

lemma squares_assign [simp]: "squares (piece_lists_assign n c xs b) = squares b"
  by (simp add: piece_lists_assign_def)

lemma piece_lists_assign_same:
  "piece_lists b n = Some idx \<Longrightarrow> piece_lists (piece_lists_assign n c xs b) n = Some (idx(c := xs))"
  by (auto simp: piece_lists_def piece_lists_assign_def split: if_splits)

lemma piece_lists_assign_other:
  "n' \<noteq> n \<Longrightarrow> piece_lists (piece_lists_assign n c xs b) n' = piece_lists b n'"
  by (auto simp: piece_lists_def piece_lists_assign_def)

lemma add_pieces_pieces: "pieces (add_pieces ps h b) = pieces b @ ps"
  by (induction ps arbitrary: b) (auto simp: Let_def split: option.splits)

lemma add_pieces_keeps:
  "piece_lists b n = Some idx \<Longrightarrow> x \<in> set (idx c) \<Longrightarrow>
     \<exists>idx1. piece_lists (add_pieces ps h b) n = Some idx1 \<and> x \<in> set (idx1 c)"
proof (induction ps arbitrary: b idx)
  case Nil
  then show ?case by simp
next
  case (Cons p ps)
  let ?n = "get_name (h p)" and ?c = "get_color (h p)"
  let ?b0 = "b\<lparr>pieces := pieces b @ [p]\<rparr>"
  show ?case
  proof (cases "piece_lists b ?n")
    case None
    with Cons show ?thesis by (simp add: Let_def)
  next
    case (Some idp)
    let ?b1 = "piece_lists_assign ?n ?c (list_set (idp ?c @ [p])) ?b0"
    have step: "add_pieces (p # ps) h b = add_pieces ps h ?b1"
      using Some by (simp add: Let_def)
    have "\<exists>idx1. piece_lists ?b1 n = Some idx1 \<and> x \<in> set (idx1 c)"
    proof (cases "n = ?n")
      case True
      with Some Cons.prems have "idp = idx" by simp
      with True Some Cons.prems show ?thesis
        by (auto simp: piece_lists_assign_same list_set_def)
    next
      case False
      with Cons.prems show ?thesis
        by (simp add: piece_lists_assign_other)
    qed
    then obtain idx1 where "piece_lists ?b1 n = Some idx1" and "x \<in> set (idx1 c)"
      by blast
    from Cons.IH [OF this] step show ?thesis by simp
  qed
qed

lemma piece_lists_add_pieces_None:
  "piece_lists b n = None \<Longrightarrow> piece_lists (add_pieces ps h b) n = None"
proof (induction ps arbitrary: b)
  case Nil
  then show ?case by simp
next
  case (Cons p ps)
  show ?case
  proof (cases "piece_lists b (get_name (h p))")
    case None
    with Cons show ?thesis by (simp add: Let_def)
  next
    case (Some idp)
    with Cons.prems have "n \<noteq> get_name (h p)" by auto
    with Cons Some show ?thesis
      by (simp add: Let_def piece_lists_assign_other)
  qed
qed

lemma add_pieces_index:
  "piece_lists b n = Some idx \<Longrightarrow>
     \<exists>idx1. piece_lists (add_pieces ps h b) n = Some idx1
       \<and> set (idx1 c) = set (idx c) \<union> {p \<in> set ps. get_name (h p) = n \<and> get_color (h p) = c}
       \<and> (distinct (idx c) \<or> (\<exists>p \<in> set ps. get_name (h p) = n \<and> get_color (h p) = c)
            \<longrightarrow> distinct (idx1 c))"
proof (induction ps arbitrary: b idx)
  case Nil
  then show ?case by simp
next
  case (Cons p ps)
  let ?n = "get_name (h p)" and ?c = "get_color (h p)"
  let ?b0 = "b\<lparr>pieces := pieces b @ [p]\<rparr>"
  show ?case
  proof (cases "piece_lists b ?n")
    case None
    with Cons.prems have other: "?n \<noteq> n" by auto
    have step: "add_pieces (p # ps) h b = add_pieces ps h ?b0"
      using None by (simp add: Let_def)
    from Cons.IH [of ?b0 idx] Cons.prems other show ?thesis
      unfolding step by auto
  next
    case (Some idp)
    let ?b1 = "piece_lists_assign ?n ?c (list_set (idp ?c @ [p])) ?b0"
    have step: "add_pieces (p # ps) h b = add_pieces ps h ?b1"
      using Some by (simp add: Let_def)
    show ?thesis
    proof (cases "?n = n")
      case True
      with Some Cons.prems have same: "idp = idx" by simp
      let ?idx0 = "idx(?c := list_set (idx ?c @ [p]))"
      have "piece_lists ?b1 n = Some ?idx0"
        using Some True same by (simp add: piece_lists_assign_same)
      from Cons.IH [OF this] obtain idx1
        where got: "piece_lists (add_pieces ps h ?b1) n = Some idx1"
          and members: "set (idx1 c) = set (?idx0 c)
                 \<union> {q \<in> set ps. get_name (h q) = n \<and> get_color (h q) = c}"
          and dist: "distinct (?idx0 c) \<or> (\<exists>q \<in> set ps. get_name (h q) = n \<and> get_color (h q) = c)
                 \<longrightarrow> distinct (idx1 c)"
        by blast
      have "set (idx1 c) = set (idx c)
              \<union> {q \<in> set (p # ps). get_name (h q) = n \<and> get_color (h q) = c}"
        using members True by (auto simp: list_set_def)
      moreover have "distinct (idx1 c)"
        if "distinct (idx c) \<or> (\<exists>q \<in> set (p # ps). get_name (h q) = n \<and> get_color (h q) = c)"
        using that dist True by (auto simp: list_set_def split: if_splits)
      ultimately show ?thesis
        using got unfolding step by blast
    next
      case False
      then have "piece_lists ?b1 n = Some idx"
        using Cons.prems by (simp add: piece_lists_assign_other)
      from Cons.IH [OF this] False show ?thesis
        unfolding step by auto
    qed
  qed
qed

lemma update_pieces_add_then_remove:
  assumes "pieces b \<noteq> []" and "r \<in> set ps"
  shows "\<exists>b1. update_pieces b ps [r] h = Inr b1
           \<and> set (pieces b1) = set (remove1 r (pieces b @ rev ps))
           \<and> (\<forall>xs. tracked_index b h r = Some xs \<longrightarrow>
                (\<exists>ys. tracked_index b1 h r = Some ys \<and> r \<notin> set ys
                   \<and> set ys = (set xs \<union> {p \<in> set ps. get_name (h p) = get_name (h r)
                                        \<and> get_color (h p) = get_color (h r)}) - {r}))"
proof -
  let ?b1 = "add_pieces (rev ps) h b"
  let ?n = "get_name (h r)" and ?c = "get_color (h r)"
  have ne: "ps \<noteq> []" using assms(2) by auto
  have flat: "pieces ?b1 = pieces b @ rev ps"
    by (simp add: add_pieces_pieces)
  have r_in: "r \<in> set (pieces ?b1)"
    using assms(2) by (simp add: flat)
  show ?thesis
  proof (cases "piece_lists b ?n")
    case None
    then have "piece_lists ?b1 ?n = None"
      by (rule piece_lists_add_pieces_None)
    with r_in assms(1) ne flat None show ?thesis
      by (simp add: update_pieces_def Let_def list_set_def tracked_index_def)
  next
    case (Some idx)
    from add_pieces_index [OF Some, of "rev ps" h ?c] assms(2)
    obtain idx1 where got: "piece_lists ?b1 ?n = Some idx1"
      and members: "set (idx1 ?c) = set (idx ?c)
             \<union> {p \<in> set ps. get_name (h p) = ?n \<and> get_color (h p) = ?c}"
      and dist: "distinct (idx1 ?c)"
      by auto
    from members assms(2) have indexed: "r \<in> set (idx1 ?c)" by simp
    let ?b2 = "piece_lists_assign ?n ?c (list_set (remove1 r (idx1 ?c)))
                 (?b1\<lparr>pieces := remove1 r (pieces ?b1)\<rparr>)"
    have run: "update_pieces b ps [r] h = Inr (?b2\<lparr>pieces := list_set (pieces ?b2)\<rparr>)"
      using r_in assms(1) ne got indexed by (simp add: update_pieces_def Let_def)
    have after: "tracked_index (?b2\<lparr>pieces := list_set (pieces ?b2)\<rparr>) h r
                   = Some (list_set (remove1 r (idx1 ?c)))"
      using got by (simp add: tracked_index_def piece_lists_assign_same)
    have before: "tracked_index b h r = Some (idx ?c)"
      using Some by (simp add: tracked_index_def)
    have gone: "set (list_set (remove1 r (idx1 ?c))) = set (idx1 ?c) - {r}"
      using dist by (simp add: list_set_def)
    have flat2: "set (pieces (?b2\<lparr>pieces := list_set (pieces ?b2)\<rparr>))
                   = set (remove1 r (pieces b @ rev ps))"
      by (simp add: flat list_set_def)
    have "r \<notin> set (list_set (remove1 r (idx1 ?c)))"
      unfolding gone by simp
    moreover have "set (list_set (remove1 r (idx1 ?c)))
        = (set (idx ?c) \<union> {p \<in> set ps. get_name (h p) = ?n \<and> get_color (h p) = ?c}) - {r}"
      unfolding gone members by simp
    ultimately show ?thesis
      unfolding run before using after flat2 by blast
  qed
qed


text \<open>
  The two-rooks endgame built right after import, with its pieces at the addresses 0 to 3
  and the address 4 for the next piece constructed: the board on which the properties of
  \<open>update_pieces\<close> below are exercised.
\<close>

lemma two_rooks_at_import:
  "\<exists>b w1. makeTwoRooksEndgameBoard ''White'' world_at_import = Inr (Some b, w1)
     \<and> pieces b = [0, 3, 2, 1] \<and> occupants (squares b) = [0, 3, 2, 1]
     \<and> rooks b White = [0, 1] \<and> rooks b Black = []
     \<and> queens b = (\<lambda>c. []) \<and> knights b = (\<lambda>c. []) \<and> bishops b = (\<lambda>c. [])
     \<and> map (\<lambda>a. get_name (heap w1 a)) [0, 1, 2, 3] = [''Rook'', ''Rook'', ''King'', ''King'']
     \<and> map (\<lambda>a. get_color (heap w1 a)) [0, 1, 2, 3] = [White, White, White, Black]
     \<and> next_piece w1 = 4"
proof -
  have assms: "FILE world_at_import = FILE_default" "RANK world_at_import = RANK_default"
    by (simp_all add: world_at_import_def)
  obtain sqs where init: "Board_init 8 8 world_at_import =
           Inr (\<lparr>ident = next_board world_at_import, files = 8, ranks = 8, pieces = [],
                 queens = (\<lambda>c. []), rooks = (\<lambda>c. []), knights = (\<lambda>c. []),
                 bishops = (\<lambda>c. []), squares = sqs,
                 white_king = None, black_king = None\<rparr>,
                world_at_import\<lparr>next_board := Suc (next_board world_at_import)\<rparr>)"
    and occ: "map sq_piece sqs = replicate 64 None"
    using Board_init_default [OF assms] by blast
  have sel: "startswith (lower ''White'') ''w''"
    by (simp add: startswith_def lower_def lower_char_def)
  have start: "next_piece world_at_import = 0"
    "heap world_at_import = (\<lambda>a. \<lparr>get_name = [], get_color = White, square = None\<rparr>)"
    by (simp_all add: world_at_import_def)
  show ?thesis
    by (simp add: makeTwoRooksEndgameBoard_def init occ sel builder_simps start fun_eq_iff)
qed

lemma update_pieces_remove_present:
  assumes "pieces b \<noteq> []" and "distinct (pieces b)" and "p \<in> set (pieces b)"
    and "\<forall>xs. tracked_index b h p = Some xs \<longrightarrow> p \<in> set xs \<and> distinct xs"
  shows "\<exists>b1. update_pieces b [] [p] h = Inr b1
           \<and> pieces b1 = remove1 p (pieces b)
           \<and> (\<forall>xs. tracked_index b h p = Some xs \<longrightarrow>
                (\<exists>ys. tracked_index b1 h p = Some ys \<and> set ys = set xs - {p}))"
proof (cases "piece_lists b (get_name (h p))")
  case None
  with assms show ?thesis
    by (simp add: update_pieces_def Let_def list_set_def tracked_index_def)
next
  case (Some idx)
  with assms(4) have "p \<in> set (idx (get_color (h p)))" "distinct (idx (get_color (h p)))"
    by (simp_all add: tracked_index_def)
  with Some assms(1,2,3) show ?thesis
    by (simp add: update_pieces_def Let_def list_set_def tracked_index_def
          piece_lists_assign_same)
qed

lemma update_pieces_remove_absent:
  assumes "pieces b \<noteq> []" and "p \<notin> set (pieces b)"
  shows "update_pieces b [] [p] h = Inl ValueError"
  using assms by (simp add: update_pieces_def Let_def)

lemma update_pieces_remove_unindexed:
  assumes "pieces b \<noteq> []" and "tracked_index b h p = Some xs" and "p \<notin> set xs"
  shows "update_pieces b [] [p] h = Inl ValueError"
  using assms
  by (auto simp: update_pieces_def Let_def tracked_index_def split: option.splits)

text \<open>
  C5. On a board whose flat list is not empty (incremental mode) and has no duplicates:
  removing a piece that is in the flat list, and in its type/color index when its type is
  tracked, takes it out of the flat list, which shrinks by exactly one, and out of that
  index; removing the same piece again raises \<open>ValueError\<close> as long as the flat list has
  not become empty; removing a piece that is not in the flat list, or not in its index,
  raises \<open>ValueError\<close>.
\<close>

theorem update_pieces_remove:
  assumes "pieces b \<noteq> []" and "distinct (pieces b)"
  shows "(p \<in> set (pieces b)
            \<and> (\<forall>xs. tracked_index b h p = Some xs \<longrightarrow> p \<in> set xs \<and> distinct xs) \<longrightarrow>
          (\<exists>b1. update_pieces b [] [p] h = Inr b1
             \<and> set (pieces b1) = set (pieces b) - {p}
             \<and> length (pieces b1) + 1 = length (pieces b)
             \<and> (\<forall>xs. tracked_index b h p = Some xs \<longrightarrow>
                  (\<exists>ys. tracked_index b1 h p = Some ys \<and> set ys = set xs - {p}))
             \<and> (2 \<le> length (pieces b) \<longrightarrow> update_pieces b1 [] [p] h = Inl ValueError)))
       \<and> (p \<notin> set (pieces b) \<longrightarrow> update_pieces b [] [p] h = Inl ValueError)
       \<and> (\<forall>xs. tracked_index b h p = Some xs \<and> p \<notin> set xs \<longrightarrow>
            update_pieces b [] [p] h = Inl ValueError)"
proof (intro conjI impI allI)
  assume present: "p \<in> set (pieces b)
    \<and> (\<forall>xs. tracked_index b h p = Some xs \<longrightarrow> p \<in> set xs \<and> distinct xs)"
  with update_pieces_remove_present [OF assms, of p h]
  obtain b1 where b1: "update_pieces b [] [p] h = Inr b1"
    and flat: "pieces b1 = remove1 p (pieces b)"
    and idx: "\<forall>xs. tracked_index b h p = Some xs \<longrightarrow>
                (\<exists>ys. tracked_index b1 h p = Some ys \<and> set ys = set xs - {p})"
    by blast
  have gone: "p \<notin> set (pieces b1)"
    using assms(2) by (simp add: flat)
  have len: "length (pieces b1) + 1 = length (pieces b)"
    using present assms(1) by (simp add: flat length_remove1 Suc_leI length_greater_0_conv)
  have again: "update_pieces b1 [] [p] h = Inl ValueError" if "2 \<le> length (pieces b)"
  proof -
    from that len have "pieces b1 \<noteq> []" by auto
    then show ?thesis using gone by (rule update_pieces_remove_absent)
  qed
  show "\<exists>b1. update_pieces b [] [p] h = Inr b1
             \<and> set (pieces b1) = set (pieces b) - {p}
             \<and> length (pieces b1) + 1 = length (pieces b)
             \<and> (\<forall>xs. tracked_index b h p = Some xs \<longrightarrow>
                  (\<exists>ys. tracked_index b1 h p = Some ys \<and> set ys = set xs - {p}))
             \<and> (2 \<le> length (pieces b) \<longrightarrow> update_pieces b1 [] [p] h = Inl ValueError)"
    using b1 flat len idx again assms(2) by auto
next
  assume "p \<notin> set (pieces b)"
  with assms(1) show "update_pieces b [] [p] h = Inl ValueError"
    by (rule update_pieces_remove_absent)
next
  fix xs
  assume "tracked_index b h p = Some xs \<and> p \<notin> set xs"
  with assms(1) show "update_pieces b [] [p] h = Inl ValueError"
    by (auto intro: update_pieces_remove_unindexed)
qed

theorem update_pieces_remove_witness:
  "\<exists>b w1 q w2. makeTwoRooksEndgameBoard ''White'' world_at_import = Inr (Some b, w1)
     \<and> Queen White w1 = (q, w2)
     \<and> pieces b \<noteq> [] \<and> distinct (pieces b) \<and> 0 \<in> set (pieces b)
     \<and> tracked_index b (heap w2) 0 = Some [0, 1]
     \<and> (\<exists>b1. update_pieces b [] [0] (heap w2) = Inr b1
           \<and> set (pieces b1) = {1, 2, 3} \<and> length (pieces b1) = 3
           \<and> (\<exists>ys. tracked_index b1 (heap w2) 0 = Some ys \<and> set ys = {1})
           \<and> update_pieces b1 [] [0] (heap w2) = Inl ValueError)
     \<and> q \<notin> set (pieces b)
     \<and> update_pieces b [] [q] (heap w2) = Inl ValueError"
proof -
  from two_rooks_at_import obtain b w1 where
    made: "makeTwoRooksEndgameBoard ''White'' world_at_import = Inr (Some b, w1)"
    and flat: "pieces b = [0, 3, 2, 1]"
    and idx: "rooks b White = [0, 1]"
    and names: "map (\<lambda>a. get_name (heap w1 a)) [0, 1, 2, 3]
                  = [''Rook'', ''Rook'', ''King'', ''King'']"
    and colors: "map (\<lambda>a. get_color (heap w1 a)) [0, 1, 2, 3] = [White, White, White, Black]"
    and fresh: "next_piece w1 = 4"
    by (elim exE conjE) (rule that, assumption+)
  obtain w2 where promoted: "Queen White w1 = (4, w2)"
    and store: "heap w2 = (heap w1)(4 := \<lparr>get_name = ''Queen'', get_color = White, square = None\<rparr>)"
    by (simp add: Queen_def Piece_init_def fresh)
  have tr: "tracked_index b (heap w2) 0 = Some [0, 1]"
    using names colors idx by (simp add: tracked_index_def piece_lists_def store)
  have pre: "pieces b \<noteq> []" "distinct (pieces b)"
    by (simp_all add: flat)
  from update_pieces_remove [OF pre, of 0 "heap w2"] update_pieces_remove [OF pre, of 4 "heap w2"]
    made promoted flat tr
  show ?thesis by (auto simp: insert_commute)
qed

text \<open>
  C6, as amended. In incremental mode a piece that is in the added list may also be the
  removed piece: the call returns normally, and the flat list holds what the old list and
  the added pieces hold once one occurrence of that piece is taken away. When the piece
  is of a tracked type, its type and color index afterwards holds the old entries and the
  added pieces of that type and color, without the removed piece.
\<close>

theorem update_pieces_overlap_processed:
  assumes "pieces b \<noteq> []" and "r \<in> set ps"
  shows "\<exists>b1. update_pieces b ps [r] h = Inr b1
           \<and> set (pieces b1) = set (remove1 r (pieces b @ rev ps))
           \<and> (\<forall>xs. tracked_index b h r = Some xs \<longrightarrow>
                (\<exists>ys. tracked_index b1 h r = Some ys \<and> r \<notin> set ys
                   \<and> set ys = (set xs \<union> {p \<in> set ps. get_name (h p) = get_name (h r)
                                        \<and> get_color (h p) = get_color (h r)}) - {r}))"
  using assms by (rule update_pieces_add_then_remove)

theorem update_pieces_overlap_processed_witness:
  "\<exists>b w1. makeTwoRooksEndgameBoard ''White'' world_at_import = Inr (Some b, w1)
     \<and> pieces b \<noteq> [] \<and> (1::nat) \<in> set [1, 0]
     \<and> tracked_index b (heap w1) 1 = Some [0, 1]
     \<and> (\<exists>b1. update_pieces b [1, 0] [1] (heap w1) = Inr b1 \<and> set (pieces b1) = {0, 1, 2, 3}
           \<and> (\<exists>ys. tracked_index b1 (heap w1) 1 = Some ys \<and> 1 \<notin> set ys \<and> set ys = {0}))"
proof -
  from two_rooks_at_import obtain b w1 where
    made: "makeTwoRooksEndgameBoard ''White'' world_at_import = Inr (Some b, w1)"
    and flat: "pieces b = [0, 3, 2, 1]"
    and occ: "occupants (squares b) = [0, 3, 2, 1]"
    and idx: "rooks b White = [0, 1]"
    and names: "map (\<lambda>a. get_name (heap w1 a)) [0, 1, 2, 3]
                  = [''Rook'', ''Rook'', ''King'', ''King'']"
    and colors: "map (\<lambda>a. get_color (heap w1 a)) [0, 1, 2, 3] = [White, White, White, Black]"
    and fresh: "next_piece w1 = 4"
    by (elim exE conjE) (rule that, assumption+)
  have pre: "pieces b \<noteq> []" "(1::nat) \<in> set [1, 0]"
    by (simp_all add: flat)
  have nm: "get_name (heap w1 0) = ''Rook''" "get_color (heap w1 0) = White"
    "get_name (heap w1 1) = ''Rook''" "get_color (heap w1 1) = White"
    "get_name (heap w1 (Suc 0)) = ''Rook''" "get_color (heap w1 (Suc 0)) = White"
    using names colors by simp_all
  have tr: "tracked_index b (heap w1) 1 = Some [0, 1]"
    using nm idx by (simp add: tracked_index_def piece_lists_def)
  have both: "{p \<in> set [1, 0::nat]. get_name (heap w1 p) = get_name (heap w1 1)
                 \<and> get_color (heap w1 p) = get_color (heap w1 1)} = {0, 1}"
    using nm by auto
  from update_pieces_overlap_processed [OF pre, of "heap w1"] tr
  obtain b1 ys where run: "update_pieces b [1, 0] [1] (heap w1) = Inr b1"
    and members: "set (pieces b1) = set (remove1 1 (pieces b @ rev [1, 0]))"
    and after: "tracked_index b1 (heap w1) 1 = Some ys" "1 \<notin> set ys"
      "set ys = (set [0, 1] \<union> {p \<in> set [1, 0]. get_name (heap w1 p) = get_name (heap w1 1)
                   \<and> get_color (heap w1 p) = get_color (heap w1 1)}) - {1}"
    by blast
  from after(3) have "set ys = {0}"
    unfolding both by auto
  with made pre tr run members after(1,2) flat show ?thesis
    by (auto simp: insert_commute)
qed

text \<open>
  C6, as stated, fails: on the two-rooks endgame the call with the rook at address 0 both
  added and removed returns a board. The rook stays in the flat list and leaves the rook
  index.
\<close>

theorem update_pieces_overlap_accepted:
  "\<exists>b w1 b1. makeTwoRooksEndgameBoard ''White'' world_at_import = Inr (Some b, w1)
     \<and> pieces b \<noteq> []
     \<and> update_pieces b [0] [0] (heap w1) = Inr b1
     \<and> set (pieces b1) = set (pieces b) \<and> rooks b1 White = [1]"
proof -
  from two_rooks_at_import obtain b w1 where
    made: "makeTwoRooksEndgameBoard ''White'' world_at_import = Inr (Some b, w1)"
    and flat: "pieces b = [0, 3, 2, 1]"
    and occ: "occupants (squares b) = [0, 3, 2, 1]"
    and idx: "rooks b White = [0, 1]"
    and names: "map (\<lambda>a. get_name (heap w1 a)) [0, 1, 2, 3]
                  = [''Rook'', ''Rook'', ''King'', ''King'']"
    and colors: "map (\<lambda>a. get_color (heap w1 a)) [0, 1, 2, 3] = [White, White, White, Black]"
    and fresh: "next_piece w1 = 4"
    by (elim exE conjE) (rule that, assumption+)
  have nm: "get_name (heap w1 0) = ''Rook''" "get_color (heap w1 0) = White"
    using names colors by simp_all
  have "\<exists>b1. update_pieces b [0] [0] (heap w1) = Inr b1
     \<and> set (pieces b1) = set (pieces b) \<and> rooks b1 White = [1]"
    by (simp add: update_pieces_def Let_def list_set_def piece_lists_def piece_lists_assign_def
          flat idx nm insert_commute)
  with made flat show ?thesis by auto
qed

lemma set_occupants: "set (occupants sqs) = {p. \<exists>sq \<in> set sqs. sq_piece sq = Some p}"
  unfolding occupants_def
proof (induction sqs)
  case Nil
  then show ?case by simp
next
  case (Cons sq sqs)
  then show ?case by (cases "sq_piece sq") auto
qed

text \<open>
  C10. With an empty flat list \<open>update_pieces\<close> ignores both arguments: the result is the
  one of the call without arguments, its flat list holds the pieces found on the squares,
  and a piece of \<open>pieces_set\<close> that is on no square is not inserted. With a non-empty flat
  list the pieces of \<open>pieces_set\<close> are inserted and the squares are not read.
\<close>

theorem update_pieces_mode:
  "(pieces b = [] \<longrightarrow>
      (\<exists>b1. update_pieces b ps rs h = Inr b1 \<and> update_pieces b [] [] h = Inr b1
         \<and> set (pieces b1) = set (occupants (squares b))
         \<and> (\<forall>p \<in> set ps. p \<notin> set (occupants (squares b)) \<longrightarrow> p \<notin> set (pieces b1))))
   \<and> (pieces b \<noteq> [] \<longrightarrow>
      (\<exists>b1. update_pieces b ps [] h = Inr b1 \<and> set (pieces b1) = set (pieces b) \<union> set ps))"
  by (auto simp: update_pieces_def Let_def list_set_def scan_fields add_pieces_pieces)

theorem update_pieces_mode_witness:
  "\<exists>b w1 q w2 b0. makeTwoRooksEndgameBoard ''White'' world_at_import = Inr (Some b, w1)
     \<and> Queen White w1 = (q, w2)
     \<and> update_pieces b [] [0, 1, 2, 3] (heap w2) = Inr b0
     \<and> pieces b0 = []
     \<and> (\<exists>b1. update_pieces b0 [q] [] (heap w2) = Inr b1 \<and> set (pieces b1) = {0, 1, 2, 3}
           \<and> q \<notin> set (pieces b1))
     \<and> pieces b \<noteq> []
     \<and> (\<exists>b1. update_pieces b [q] [] (heap w2) = Inr b1 \<and> set (pieces b1) = {0, 1, 2, 3, q})"
proof -
  from two_rooks_at_import obtain b w1 where
    made: "makeTwoRooksEndgameBoard ''White'' world_at_import = Inr (Some b, w1)"
    and flat: "pieces b = [0, 3, 2, 1]"
    and occ: "occupants (squares b) = [0, 3, 2, 1]"
    and idx: "rooks b White = [0, 1]"
    and names: "map (\<lambda>a. get_name (heap w1 a)) [0, 1, 2, 3]
                  = [''Rook'', ''Rook'', ''King'', ''King'']"
    and colors: "map (\<lambda>a. get_color (heap w1 a)) [0, 1, 2, 3] = [White, White, White, Black]"
    and fresh: "next_piece w1 = 4"
    by (elim exE conjE) (rule that, assumption+)
  obtain w2 where promoted: "Queen White w1 = (4, w2)"
    and store: "heap w2 = (heap w1)(4 := \<lparr>get_name = ''Queen'', get_color = White, square = None\<rparr>)"
    by (simp add: Queen_def Piece_init_def fresh)
  have nm: "get_name (heap w2 0) = ''Rook''" "get_color (heap w2 0) = White"
    "get_name (heap w2 1) = ''Rook''" "get_color (heap w2 1) = White"
    "get_name (heap w2 (Suc 0)) = ''Rook''" "get_color (heap w2 (Suc 0)) = White"
    "get_name (heap w2 2) = ''King''" "get_name (heap w2 3) = ''King''"
    using names colors by (simp_all add: store)
  have "\<exists>b0. update_pieces b [] [0, 1, 2, 3] (heap w2) = Inr b0 \<and> pieces b0 = []
          \<and> squares b0 = squares b"
    by (simp add: update_pieces_def Let_def list_set_def piece_lists_def piece_lists_assign_def
          flat idx nm)
  then obtain b0 where emptied: "update_pieces b [] [0, 1, 2, 3] (heap w2) = Inr b0"
    and none: "pieces b0 = []" and same: "squares b0 = squares b"
    by (elim exE conjE) (rule that, assumption+)
  from update_pieces_mode [of b0 "[4]" "[]" "heap w2"] update_pieces_mode [of b "[4]" "[]" "heap w2"]
    made promoted emptied none same occ flat
  show ?thesis by (auto simp: insert_commute)
qed

section \<open>Boards of another size and the shared label tables\<close>

lemma collect_map_Inr:
  "(\<And>x. x \<in> set xs \<Longrightarrow> g x = Inr (k x)) \<Longrightarrow> collect (map g xs) = Inr (map k xs)"
  by (induction xs) simp_all

lemma collect_all_Inr:
  "(\<And>m. m \<in> set ms \<Longrightarrow> \<exists>x. m = Inr x) \<Longrightarrow> \<exists>xs. collect ms = Inr xs"
proof (induction ms)
  case Nil
  then show ?case by simp
next
  case (Cons m ms)
  then obtain x where "m = Inr x" by auto
  moreover from Cons obtain xs where "collect ms = Inr xs" by auto
  ultimately show ?case by simp
qed

lemma getitem_in_range: "0 \<le> i \<Longrightarrow> i < int (length xs) \<Longrightarrow> getitem xs i = Inr (xs ! nat i)"
  by (simp add: getitem_def norm_index_def)

lemma getitem_out_of_range: "int (length xs) \<le> i \<Longrightarrow> getitem xs i = Inl IndexError"
  by (simp add: getitem_def norm_index_def)

lemma defineFILEandRANK_ok:
  assumes "nf \<le> 26"
  shows "defineFILEandRANK (int nf) (int nr) =
           Inr (map (\<lambda>f. [alpha ! nat f]) [0..int nf - 1], map str (rev [0..int nr - 1]))"
proof -
  have "collect (map (\<lambda>f. and_then (getitem alpha f) (\<lambda>c. Inr [c])) [0..int nf - 1])
          = Inr (map (\<lambda>f. [alpha ! nat f]) [0..int nf - 1])"
  proof (rule collect_map_Inr)
    fix x assume "x \<in> set [0..int nf - 1]"
    with assms have "0 \<le> x" "x < int (length alpha)"
      by (simp_all add: alpha_def)
    then show "and_then (getitem alpha x) (\<lambda>c. Inr [c]) = Inr [alpha ! nat x]"
      by (simp add: getitem_in_range)
  qed
  then show ?thesis by (simp add: defineFILEandRANK_def)
qed

lemma digits_nonempty: "digits n \<noteq> []"
  by (subst digits.simps) simp

lemma digits_eq_8: "digits n = ''8'' \<longleftrightarrow> n = 8"
proof (cases "n < 10")
  case True
  then have "n \<in> {0, 1, 2, 3, 4, 5, 6, 7, 8, 9}"
    by auto
  then show ?thesis
    by (auto simp: digits.simps)
next
  case False
  then have "digits n = digits (n div 10) @ [''0123456789'' ! (n mod 10)]"
    by (subst digits.simps) simp
  moreover have "length (digits (n div 10)) \<ge> 1"
    using digits_nonempty [of "n div 10"] by (cases "digits (n div 10)") simp_all
  ultimately have "length (digits n) \<ge> 2" by simp
  with False show ?thesis by auto
qed

lemma str_eq_8: "0 \<le> i \<Longrightarrow> str i = ''8'' \<longleftrightarrow> i = 8"
  by (auto simp: str_def digits_eq_8)

lemma names_8x8_nth:
  "names_8x8 F R ! 0 = computerToAlgebraic F R 0 0"
  "names_8x8 F R ! 56 = computerToAlgebraic F R 7 0"
  by (simp_all add: names_8x8_def upto_0_7)

lemma names_8x8_default:
  "names_8x8 FILE_default RANK_default ! 0 = Inr ''a8''"
  "names_8x8 FILE_default RANK_default ! 56 = Inr ''h8''"
  by (simp_all add: names_8x8_nth computerToAlgebraic_def FILE_default_def RANK_default_def
        getitem_def norm_index_def)


lemma Square_init_tables:
  assumes "0 \<le> f" and "f < int (length fl)" and "0 \<le> r" and "r < int (length rl)"
  shows "\<exists>sq. Square_init (StrList fl) (StrList rl) f r bid = Inr sq"
  using assms by (simp add: Square_init_def computerToAlgebraic_def getitem_in_range)

lemma Board_init_other:
  assumes "nf \<le> 26" and "nf \<noteq> 8 \<or> nr \<noteq> 8"
  shows "\<exists>b w1. Board_init nf nr w = Inr (b, w1)
           \<and> FILE w1 = StrList (map (\<lambda>f. [alpha ! nat f]) [0..int nf - 1])
           \<and> RANK w1 = StrList (map str (rev [0..int nr - 1]))"
proof -
  let ?fl = "map (\<lambda>f. [alpha ! nat f]) [0..int nf - 1]"
  let ?rl = "map str (rev [0..int nr - 1])"
  let ?w1 = "w\<lparr>FILE := StrList ?fl, RANK := StrList ?rl\<rparr>"
  have "\<exists>sqs. collect (concat (map (\<lambda>f. map (\<lambda>r. Square_init (StrList ?fl) (StrList ?rl) f r
                    (next_board w)) [0..int nr - 1]) [0..int nf - 1])) = Inr sqs"
  proof (rule collect_all_Inr)
    fix m
    assume "m \<in> set (concat (map (\<lambda>f. map (\<lambda>r. Square_init (StrList ?fl) (StrList ?rl) f r
                    (next_board w)) [0..int nr - 1]) [0..int nf - 1]))"
    then obtain f r where "0 \<le> f" "f \<le> int nf - 1" "0 \<le> r" "r \<le> int nr - 1"
      and m: "m = Square_init (StrList ?fl) (StrList ?rl) f r (next_board w)"
      by auto
    then have "f < int (length ?fl)" and "r < int (length ?rl)"
      by simp_all
    with \<open>0 \<le> f\<close> \<open>0 \<le> r\<close> show "\<exists>x. m = Inr x"
      unfolding m by (intro Square_init_tables)
  qed
  then obtain sqs where "collect (concat (map (\<lambda>f. map (\<lambda>r.
      Square_init (StrList ?fl) (StrList ?rl) f r (next_board w)) [0..int nr - 1])
      [0..int nf - 1])) = Inr sqs" ..
  with assms show ?thesis
    by (auto simp: Board_init_def defineFILEandRANK_ok)
qed

lemma corner_a8_changed:
  assumes "nr \<noteq> 9"
  shows "computerToAlgebraic (StrList (map (\<lambda>f. [alpha ! nat f]) [0..int nf - 1]))
           (StrList (map str (rev [0..int nr - 1]))) 0 0 \<noteq> Inr ''a8''"
proof (cases "nf = 0 \<or> nr = 0")
  case True
  then show ?thesis
    by (auto simp: computerToAlgebraic_def getitem_def norm_index_def)
next
  case False
  then have pos: "0 < nf" "0 < nr" by simp_all
  have top: "map str (rev [0..int nr - 1]) ! 0 = str (int nr - 1)"
    using pos by (simp add: rev_map [symmetric] rev_nth last_conv_nth [symmetric])
  have "str (int nr - 1) \<noteq> ''8''"
    using pos assms by (simp add: str_eq_8)
  with pos top show ?thesis
    by (simp add: computerToAlgebraic_def getitem_in_range)
qed


lemma corner_h8_changed:
  assumes "nf < 8"
  shows "computerToAlgebraic (StrList (map (\<lambda>f. [alpha ! nat f]) [0..int nf - 1])) R 7 0
           \<noteq> Inr ''h8''"
  using assms by (simp add: computerToAlgebraic_def getitem_out_of_range)

text \<open>
  C8, as amended. Constructing a board of at most 26 files whose dimensions are not 8 by 8
  replaces the shared tables by the generated label lists; afterwards the names that
  \<open>computerToAlgebraic\<close> gives to the coordinates of an 8 by 8 board are no longer the
  standard ones, unless the new board has at least 8 files and exactly 9 ranks.
\<close>

theorem Board_init_relabels:
  assumes "nf \<le> 26" and "nf \<noteq> 8 \<or> nr \<noteq> 8" and "\<not> (8 \<le> nf \<and> nr = 9)"
  shows "\<exists>b w1. Board_init nf nr w = Inr (b, w1)
     \<and> FILE w1 = StrList (map (\<lambda>f. [alpha ! nat f]) [0..int nf - 1])
     \<and> RANK w1 = StrList (map str (rev [0..int nr - 1]))
     \<and> names_8x8 (FILE w1) (RANK w1) \<noteq> names_8x8 FILE_default RANK_default"
proof -
  let ?F = "StrList (map (\<lambda>f. [alpha ! nat f]) [0..int nf - 1])"
  let ?R = "StrList (map str (rev [0..int nr - 1]))"
  from Board_init_other [OF assms(1,2), of w] obtain b w1
    where built: "Board_init nf nr w = Inr (b, w1)" and F: "FILE w1 = ?F" and R: "RANK w1 = ?R"
    by blast
  have "names_8x8 ?F ?R \<noteq> names_8x8 FILE_default RANK_default"
  proof (cases "nr = 9")
    case True
    with assms(3) have "nf < 8" by simp
    then have "names_8x8 ?F ?R ! 56 \<noteq> Inr ''h8''"
      unfolding names_8x8_nth by (rule corner_h8_changed)
    then have "names_8x8 ?F ?R ! 56 \<noteq> names_8x8 FILE_default RANK_default ! 56"
      by (simp add: names_8x8_default)
    then show ?thesis by auto
  next
    case False
    then have "names_8x8 ?F ?R ! 0 \<noteq> Inr ''a8''"
      unfolding names_8x8_nth by (rule corner_a8_changed)
    then have "names_8x8 ?F ?R ! 0 \<noteq> names_8x8 FILE_default RANK_default ! 0"
      by (simp add: names_8x8_default)
    then show ?thesis by auto
  qed
  with built F R show ?thesis by simp
qed

theorem Board_init_relabels_witness:
  "(5::nat) \<le> 26 \<and> (5::nat) \<noteq> 8
   \<and> (\<exists>b w1. Board_init 5 5 world_at_import = Inr (b, w1)
         \<and> FILE w1 = StrList [''a'', ''b'', ''c'', ''d'', ''e'']
         \<and> RANK w1 = StrList [''4'', ''3'', ''2'', ''1'', ''0'']
         \<and> names_8x8 (FILE w1) (RANK w1) \<noteq> names_8x8 FILE_default RANK_default)"
proof -
  have pre: "(5::nat) \<le> 26" "(5::nat) \<noteq> 8 \<or> (5::nat) \<noteq> 8" "\<not> (8 \<le> (5::nat) \<and> (5::nat) = 9)"
    by simp_all
  have "map (\<lambda>f. [alpha ! nat f]) [0..int 5 - 1] = [''a'', ''b'', ''c'', ''d'', ''e'']"
    "map str (rev [0..int 5 - 1]) = [''4'', ''3'', ''2'', ''1'', ''0'']"
    by (simp_all add: upto.simps alpha_def str_def digits.simps)
  with Board_init_relabels [OF pre, of world_at_import] show ?thesis
    by simp
qed

text \<open>
  C8, as stated, fails: after a board of 8 files and 9 ranks is constructed the tables
  are lists, and every one of the 64 coordinates of an 8 by 8 board keeps its standard
  name, since the generated ranks run from \<open>8\<close> down to \<open>0\<close>.
\<close>

theorem Board_init_8_9_keeps_names:
  "\<exists>b w1. Board_init 8 9 world_at_import = Inr (b, w1)
     \<and> FILE w1 = StrList [''a'', ''b'', ''c'', ''d'', ''e'', ''f'', ''g'', ''h'']
     \<and> RANK w1 = StrList [''8'', ''7'', ''6'', ''5'', ''4'', ''3'', ''2'', ''1'', ''0'']
     \<and> names_8x8 (FILE w1) (RANK w1)
         = names_8x8 (FILE world_at_import) (RANK world_at_import)"
proof -
  have pre: "(8::nat) \<le> 26" "(8::nat) \<noteq> 8 \<or> (9::nat) \<noteq> 8"
    by simp_all
  have tabs: "map (\<lambda>f. [alpha ! nat f]) [0..int 8 - 1]
                = [''a'', ''b'', ''c'', ''d'', ''e'', ''f'', ''g'', ''h'']"
    "map str (rev [0..int 9 - 1]) = [''8'', ''7'', ''6'', ''5'', ''4'', ''3'', ''2'', ''1'', ''0'']"
    by (simp_all add: upto.simps alpha_def str_def digits.simps)
  have same: "names_8x8 (StrList [''a'', ''b'', ''c'', ''d'', ''e'', ''f'', ''g'', ''h''])
                 (StrList [''8'', ''7'', ''6'', ''5'', ''4'', ''3'', ''2'', ''1'', ''0''])
               = names_8x8 (FILE world_at_import) (RANK world_at_import)"
    by (simp add: names_8x8_def upto_0_7 computerToAlgebraic_def world_at_import_def
          FILE_default_def RANK_default_def getitem_def norm_index_def)
  from Board_init_other [OF pre, of world_at_import] tabs same show ?thesis
    by auto
qed

end
